theory Spec2Isabelle
  imports Complex_Main "HOL-Library.Sublist"
begin

section \<open>JavaScript values shared by the three scripts\<close>

text \<open>
  A rejected promise or a thrown exception is a value of type \<open>exn\<close>: an error object
  with its constructor name and its message, or the progress event that a file reader
  hands to its \<open>onerror\<close> callback. An \<open>async\<close> function is modelled by the settled
  value of the promise it returns: \<open>Inl\<close> when it rejects, \<open>Inr\<close> when it resolves.
\<close>

datatype exn = Exn (exn_name: string) (message: string) | ProgressEvent string

text \<open>
  Values that come out of \<open>JSON.parse\<close> and travel through the extension's message
  channel. A number is the value of the double it was parsed to. An object is the list
  of its own properties. \<open>undefined\<close> is \<open>None\<close> of type \<open>json option\<close>.
\<close>

datatype json =
    JNull
  | JBool bool
  | JNum real
  | JStr string
  | JArr "json list"
  | JObj "(string \<times> json) list"

text \<open>JavaScript's ToBoolean.\<close>

fun truthy :: "json \<Rightarrow> bool" where
  "truthy JNull = False"
| "truthy (JBool b) = b"
| "truthy (JNum r) = (r \<noteq> 0)"
| "truthy (JStr s) = (s \<noteq> [])"
| "truthy (JArr xs) = True"
| "truthy (JObj kvs) = True"

definition truthy_opt :: "json option \<Rightarrow> bool" where
  "truthy_opt v = (case v of None \<Rightarrow> False | Some j \<Rightarrow> truthy j)"

text \<open>
  Reading one of the properties the scripts read (\<open>data\<close>, \<open>message\<close>, \<open>solution\<close>,
  \<open>error\<close>, \<open>action\<close>, \<open>imageDataUrl\<close>): on \<open>null\<close> the read throws a TypeError (the
  message text is the engine's), on an object it is the own property or \<open>undefined\<close>,
  on every other value it is \<open>undefined\<close>, since none of these names is a builtin of
  numbers, strings, booleans or arrays.
\<close>

fun get_prop :: "json \<Rightarrow> string \<Rightarrow> exn + json option" where
  "get_prop JNull k =
     Inl (Exn ''TypeError''
            (''Cannot read properties of null (reading '' @ [CHR 0x27] @ k @ [CHR 0x27] @ '')''))"
| "get_prop (JObj kvs) k = Inr (map_of kvs k)"
| "get_prop (JBool b) k = Inr None"
| "get_prop (JNum r) k = Inr None"
| "get_prop (JStr s) k = Inr None"
| "get_prop (JArr xs) k = Inr None"

fun has_field :: "json \<Rightarrow> string \<Rightarrow> bool" where
  "has_field (JObj kvs) k = (map_of kvs k \<noteq> None)"
| "has_field JNull k = False"
| "has_field (JBool b) k = False"
| "has_field (JNum r) k = False"
| "has_field (JStr s) k = False"
| "has_field (JArr xs) k = False"

fun join_with :: "string \<Rightarrow> string list \<Rightarrow> string" where
  "join_with sep [] = []"
| "join_with sep [s] = s"
| "join_with sep (s # t # ss) = s @ sep @ join_with sep (t # ss)"

text \<open>
  JavaScript's ToString, as a template literal, the form data and the \<open>value\<close> setter of
  an input apply it. How a number prints is the engine's business and is a parameter.
  An array joins the strings of its elements, \<open>null\<close> counting as empty. A parsed object
  has no callable property: with an own \<open>toString\<close> the conversion finds no method that
  yields a primitive and throws a TypeError; without one it is \<open>[object Object]\<close>.
\<close>

fun to_string :: "(real \<Rightarrow> string) \<Rightarrow> json \<Rightarrow> exn + string"
  and strings_of :: "(real \<Rightarrow> string) \<Rightarrow> json list \<Rightarrow> exn + string list" where
  "to_string num JNull = Inr ''null''"
| "to_string num (JBool b) = Inr (if b then ''true'' else ''false'')"
| "to_string num (JNum r) = Inr (num r)"
| "to_string num (JStr s) = Inr s"
| "to_string num (JArr xs) =
     (case strings_of num xs of Inl e \<Rightarrow> Inl e | Inr ss \<Rightarrow> Inr (join_with '','' ss))"
| "to_string num (JObj kvs) =
     (if map_of kvs ''toString'' \<noteq> None
      then Inl (Exn ''TypeError'' ''Cannot convert object to primitive value'')
      else Inr ''[object Object]'')"
| "strings_of num [] = Inr []"
| "strings_of num (x # xs) =
     (case (if x = JNull then Inr [] else to_string num x) of
        Inl e \<Rightarrow> Inl e
      | Inr s \<Rightarrow> (case strings_of num xs of Inl e \<Rightarrow> Inl e | Inr ss \<Rightarrow> Inr (s # ss)))"

section \<open>The solver client (js/captchaSolverApi.js)\<close>

record config =
  apiUrl :: string
  apiKey :: string

definition DEFAULT_SOLVER_CONFIG :: config where
  "DEFAULT_SOLVER_CONFIG = \<lparr>apiUrl = ''http://localhost:8000/ocr'', apiKey = ''''\<rparr>"

text \<open>
  \<open>getSolverConfig\<close> reads the key \<open>captchaSolverConfig\<close> of the synchronized storage;
  the argument is what the storage holds there, \<open>None\<close> when the key was never written.
\<close>

definition getSolverConfig :: "config option \<Rightarrow> config" where
  "getSolverConfig stored = (case stored of None \<Rightarrow> DEFAULT_SOLVER_CONFIG | Some c \<Rightarrow> c)"

record request =
  url :: string
  http_method :: string
  headers :: "(string \<times> string) list"
  form :: "(string \<times> string) list"

text \<open>
  A response as the scripts use it: the status, the status text, and what \<open>json()\<close>
  and \<open>blob()\<close> settle to when called on it.
\<close>

record blob =
  blob_type :: string
  blob_bytes :: string

record response =
  status :: nat
  statusText :: string
  json_body :: "exn + json"
  blob_body :: "exn + blob"

definition ok :: "response \<Rightarrow> bool" where
  "ok r = (200 \<le> status r \<and> status r \<le> 299)"

text \<open>
  The network is a function from the request to what \<open>fetch\<close> settles to: \<open>Inl\<close> is
  a network error, every HTTP status is an \<open>Inr\<close>. \<open>solveCaptcha\<close> returns, beside its
  own settled value, the list of requests it issued.
\<close>

record solver_env =
  fetch :: "request \<Rightarrow> exn + response"
  number_toString :: "real \<Rightarrow> string"

definition solver_request :: "config \<Rightarrow> string \<Rightarrow> request" where
  "solver_request config imageDataUrl =
     \<lparr>url = apiUrl config, http_method = ''POST'',
      headers = (if apiKey config \<noteq> [] then [(''X-API-Key'', apiKey config)] else []),
      form = [(''image'', imageDataUrl)]\<rparr>"

definition solveCaptcha ::
  "solver_env \<Rightarrow> config option \<Rightarrow> string \<Rightarrow> (exn + json) \<times> request list" where
  "solveCaptcha env stored imageDataUrl =
    (let config = getSolverConfig stored in
     if apiUrl config = [] then
       (Inl (Exn ''Error'' ''Captcha solver API URL is not configured.''), [])
     else
       let req = solver_request config imageDataUrl in
       (case fetch env req of
          Inl e \<Rightarrow> Inl e
        | Inr resp \<Rightarrow>
            if \<not> ok resp then
              (let errorData = (case json_body resp of
                                  Inl e \<Rightarrow> JObj [(''message'', JStr (statusText resp))]
                                | Inr j \<Rightarrow> j)
               in case get_prop errorData ''message'' of
                    Inl e \<Rightarrow> Inl e
                  | Inr None \<Rightarrow> Inl (Exn ''Error'' ''Captcha solver API error: Unknown error'')
                  | Inr (Some v) \<Rightarrow>
                      if \<not> truthy v
                      then Inl (Exn ''Error'' ''Captcha solver API error: Unknown error'')
                      else (case to_string (number_toString env) v of
                              Inl e \<Rightarrow> Inl e
                            | Inr text \<Rightarrow>
                                Inl (Exn ''Error'' (''Captcha solver API error: '' @ text))))
            else
              (case json_body resp of
                 Inl e \<Rightarrow> Inl e
               | Inr data \<Rightarrow>
                   if \<not> truthy data then
                     Inl (Exn ''Error'' ''Captcha solver API did not return a valid solution.'')
                   else
                     (case get_prop data ''data'' of
                        Inl e \<Rightarrow> Inl e
                      | Inr None \<Rightarrow>
                          Inl (Exn ''Error'' ''Captcha solver API did not return a valid solution.'')
                      | Inr (Some v) \<Rightarrow>
                          if \<not> truthy v then
                            Inl (Exn ''Error'' ''Captcha solver API did not return a valid solution.'')
                          else Inr v)),
        [req]))"

section \<open>The background script (background.js)\<close>




section \<open>Numbers\<close>

text \<open>
  A JavaScript Number is an IEEE 754 double: a finite value, an infinity or NaN. A
  finite double is modelled by the real number it denotes (the two zeros are not told
  apart; nothing below depends on the sign of a zero).
\<close>

datatype number = Num real | PosInfinity | NegInfinity | NaN

text \<open>
  Rounding a real number to the nearest double, ties to the even significand. A double
  near \<open>x\<close> is a multiple of \<open>2\<close> to the power \<open>\<lfloor>log\<^sub>2 \<bar>x\<bar>\<rfloor> - 52\<close> (53 significant
  bits), or of \<open>2\<close> to the \<open>-1074\<close> in the subnormal range; a result of magnitude
  \<open>2\<close> to the \<open>1024\<close> or more is an infinity.
\<close>

definition round_even :: "real \<Rightarrow> int" where
  "round_even y =
     (let f = \<lfloor>y\<rfloor> in
      if y - of_int f < 1 / 2 then f
      else if 1 / 2 < y - of_int f then f + 1
      else if even f then f else f + 1)"

definition quantum_exp :: "real \<Rightarrow> int" where
  "quantum_exp x = max (\<lfloor>log 2 \<bar>x\<bar>\<rfloor> - 52) (- 1074)"

definition to_double :: "real \<Rightarrow> number" where
  "to_double x =
     (if x = 0 then Num 0
      else
        let r = of_int (round_even (x / 2 powi quantum_exp x)) * 2 powi quantum_exp x in
        if 2 ^ 1024 \<le> r then PosInfinity
        else if r \<le> - (2 ^ 1024) then NegInfinity
        else Num r)"


text \<open>The operators \<open>+\<close> and \<open>-\<close> on Numbers: the exact result, rounded.\<close>

fun ieee_add :: "number \<Rightarrow> number \<Rightarrow> number" where
  "ieee_add (Num a) (Num b) = to_double (a + b)"
| "ieee_add NaN y = NaN"
| "ieee_add x NaN = NaN"
| "ieee_add PosInfinity NegInfinity = NaN"
| "ieee_add NegInfinity PosInfinity = NaN"
| "ieee_add PosInfinity y = PosInfinity"
| "ieee_add NegInfinity y = NegInfinity"
| "ieee_add (Num a) y = y"

fun ieee_sub :: "number \<Rightarrow> number \<Rightarrow> number" where
  "ieee_sub (Num a) (Num b) = to_double (a - b)"
| "ieee_sub NaN y = NaN"
| "ieee_sub x NaN = NaN"
| "ieee_sub PosInfinity PosInfinity = NaN"
| "ieee_sub NegInfinity NegInfinity = NaN"
| "ieee_sub PosInfinity y = PosInfinity"
| "ieee_sub NegInfinity y = NegInfinity"
| "ieee_sub (Num a) PosInfinity = NegInfinity"
| "ieee_sub (Num a) NegInfinity = PosInfinity"

text \<open>
  What a sort does with the number its comparator returns: a positive number puts the
  second argument first; zero, a negative number and NaN (which counts as zero) do not.
\<close>

fun positive :: "number \<Rightarrow> bool" where
  "positive (Num r) = (0 < r)"
| "positive PosInfinity = True"
| "positive NegInfinity = False"
| "positive NaN = False"

text \<open>
  The language leaves the results of \<open>Math.pow\<close> and \<open>Math.sqrt\<close> to the engine
  ("implementation-approximated"), so they are parameters: \<open>Math_pow_2 x\<close> is what
  \<open>Math.pow(x, 2)\<close> returns and \<open>Math_sqrt x\<close> what \<open>Math.sqrt(x)\<close> returns.
\<close>

record math_env =
  Math_pow_2 :: "number \<Rightarrow> number"
  Math_sqrt :: "number \<Rightarrow> number"

section \<open>The page (content.js)\<close>

subsection \<open>Elements, document order, selectors\<close>

text \<open>
  An element carries its local name, its namespace, its attributes as written, the
  top-left corner of its bounding client rectangle (two doubles) and its child
  elements. A document is its document element and whether it is an HTML document (as
  opposed to an XML document such as an SVG image). An element of a document is
  identified by the path of child indices that leads to it from the document element;
  a \<open>node\<close> pairs the path with the element.
\<close>

datatype element =
  Element (localName: string) (namespaceURI: string) (attrs: "(string \<times> string) list")
          (rect_x: real) (rect_y: real) (childNodes: "element list")

datatype document = Document (html_document: bool) (documentElement: element)

definition html_ns :: string where
  "html_ns = ''http://www.w3.org/1999/xhtml''"

type_synonym node = "nat list \<times> element"

text \<open>Tree order: an element, then its children's subtrees from left to right.\<close>

fun subtree :: "nat list \<Rightarrow> element \<Rightarrow> node list"
  and forest :: "nat list \<Rightarrow> nat \<Rightarrow> element list \<Rightarrow> node list" where
  "subtree p (Element t ns a x y cs) = (p, Element t ns a x y cs) # forest p 0 cs"
| "forest p i [] = []"
| "forest p i (c # cs) = subtree (p @ [i]) c @ forest p (Suc i) cs"

text \<open>The elements on the way from the document element down to a path.\<close>

fun path_nodes :: "nat list \<Rightarrow> element \<Rightarrow> nat list \<Rightarrow> node list" where
  "path_nodes pre e [] = [(pre, e)]"
| "path_nodes pre e (i # is) =
     (pre, e) # (if i < length (childNodes e)
                 then path_nodes (pre @ [i]) (childNodes e ! i) is else [])"

text \<open>
  The selectors of the script have the shape \<open>tag[a*="v"]\<close> or \<open>tag[a="v"][b="w"]\<close>,
  with tag and attribute names in lower case. A type selector compares the local name.
  An attribute selector compares the value as written, with one exception: on an HTML
  element of an HTML document the value of \<open>type\<close> is compared without regard to ASCII
  case. (Of the attributes the script's selectors test, \<open>type\<close> is the only one on the
  HTML standard's list of such attributes.)
\<close>

definition ascii_lower :: "string \<Rightarrow> string" where
  "ascii_lower s =
     map (\<lambda>c. case map_of (zip ''ABCDEFGHIJKLMNOPQRSTUVWXYZ'' ''abcdefghijklmnopqrstuvwxyz'') c of
                 None \<Rightarrow> c
               | Some l \<Rightarrow> l) s"

datatype attr_test = Contains string string | Equals string string

datatype selector = Selector (sel_tag: string) (sel_tests: "attr_test list")

definition folds_case :: "document \<Rightarrow> element \<Rightarrow> string \<Rightarrow> bool" where
  "folds_case doc e a = (html_document doc \<and> namespaceURI e = html_ns \<and> a = ''type'')"

fun attr_holds :: "document \<Rightarrow> element \<Rightarrow> attr_test \<Rightarrow> bool" where
  "attr_holds doc e (Contains a v) =
     (case map_of (attrs e) a of
        None \<Rightarrow> False
      | Some w \<Rightarrow>
          v \<noteq> [] \<and> (if folds_case doc e a then sublist (ascii_lower v) (ascii_lower w)
                     else sublist v w))"
| "attr_holds doc e (Equals a v) =
     (case map_of (attrs e) a of
        None \<Rightarrow> False
      | Some w \<Rightarrow> if folds_case doc e a then ascii_lower w = ascii_lower v else w = v)"

definition matches :: "document \<Rightarrow> selector \<Rightarrow> node \<Rightarrow> bool" where
  "matches doc s n =
     (localName (snd n) = sel_tag s \<and> list_all (attr_holds doc (snd n)) (sel_tests s))"

text \<open>
  \<open>document.querySelector\<close> is the first match in tree order of the whole document;
  \<open>parent.querySelectorAll\<close> is every match among the descendants of \<open>parent\<close>, in
  tree order; \<open>closest\<close> is the nearest match among the element and its ancestors;
  \<open>document.body\<close> is the first \<open>body\<close> or \<open>frameset\<close> child of an \<open>html\<close>
  document element (all three HTML elements), and \<open>null\<close> when there is none.
\<close>

definition querySelector :: "document \<Rightarrow> selector \<Rightarrow> node option" where
  "querySelector doc s = find (matches doc s) (subtree [] (documentElement doc))"

definition querySelectorAll :: "document \<Rightarrow> node \<Rightarrow> selector \<Rightarrow> node list" where
  "querySelectorAll doc parent s =
     filter (matches doc s) (forest (fst parent) 0 (childNodes (snd parent)))"

definition closest :: "document \<Rightarrow> node \<Rightarrow> string \<Rightarrow> node option" where
  "closest doc n tag =
     find (\<lambda>m. localName (snd m) = tag) (rev (path_nodes [] (documentElement doc) (fst n)))"

definition html_element :: "string \<Rightarrow> element \<Rightarrow> bool" where
  "html_element name e = (namespaceURI e = html_ns \<and> localName e = name)"

definition body :: "document \<Rightarrow> node option" where
  "body doc =
     (let root = documentElement doc in
      if html_element ''html'' root
      then find (\<lambda>m. html_element ''body'' (snd m) \<or> html_element ''frameset'' (snd m))
                (map (\<lambda>i. ([i], childNodes root ! i)) [0 ..< length (childNodes root)])
      else None)"

subsection \<open>Sorting an array with a comparator\<close>

text \<open>
  \<open>Array.prototype.sort\<close> is stable, and for a consistent comparator the language fixes
  its result: ascending order, elements that compare equal in their original order.
  The model computes that list by insertion; an element goes in front of the first one
  it does not compare greater than. (For a comparator that is not consistent the
  language leaves the order to the engine; the list computed here is then one of the
  orders an engine may produce.)
\<close>

fun sort_insert :: "('a \<Rightarrow> 'a \<Rightarrow> number) \<Rightarrow> 'a \<Rightarrow> 'a list \<Rightarrow> 'a list" where
  "sort_insert cmp x [] = [x]"
| "sort_insert cmp x (y # ys) =
     (if positive (cmp x y) then y # sort_insert cmp x ys else x # y # ys)"

fun array_sort :: "('a \<Rightarrow> 'a \<Rightarrow> number) \<Rightarrow> 'a list \<Rightarrow> 'a list" where
  "array_sort cmp [] = []"
| "array_sort cmp (x # xs) = sort_insert cmp x (array_sort cmp xs)"

subsection \<open>findCaptcha\<close>

definition captchaImageSelectors :: "selector list" where
  "captchaImageSelectors =
     [Selector ''img'' [Contains ''title'' ''captcha''],
      Selector ''img'' [Contains ''src'' ''captcha''],
      Selector ''img'' [Contains ''alt'' ''captcha''],
      Selector ''img'' [Contains ''id'' ''captcha''],
      Selector ''img'' [Contains ''class'' ''captcha''],
      Selector ''img'' [Contains ''aria-label'' ''captcha'']]"

definition captchaInputSelectors :: "selector list" where
  "captchaInputSelectors =
     [Selector ''input'' [Contains ''id'' ''captcha''],
      Selector ''input'' [Contains ''name'' ''captcha''],
      Selector ''input'' [Contains ''class'' ''captcha''],
      Selector ''input'' [Contains ''placeholder'' ''captcha''],
      Selector ''input'' [Contains ''aria-label'' ''captcha''],
      Selector ''input'' [Equals ''type'' ''text'', Equals ''maxlength'' ''6''],
      Selector ''input'' [Equals ''type'' ''text'', Equals ''pattern'' ''[a-zA-Z0-9]{4,6}'']]"

text \<open>
  The selector queries the function issues are recorded, in order: a query of the whole
  document, or a query of the descendants of the element at a path.
\<close>

datatype dom_query = QuerySelector selector | QuerySelectorAll "nat list" selector

text \<open>The first loop: \<open>captchaImage\<close> after it, and the queries made.\<close>

fun find_image :: "document \<Rightarrow> selector list \<Rightarrow> node option \<times> dom_query list" where
  "find_image doc [] = (None, [])"
| "find_image doc (s # ss) =
     (case querySelector doc s of
        Some n \<Rightarrow> (Some n, [QuerySelector s])
      | None \<Rightarrow> (case find_image doc ss of (r, t) \<Rightarrow> (r, QuerySelector s # t)))"

text \<open>
  The distance of an element to the image as the comparator computes it, in doubles,
  and the comparator: the difference of two such distances.
\<close>

definition distance :: "math_env \<Rightarrow> node \<Rightarrow> node \<Rightarrow> number" where
  "distance m imgRect aRect =
     Math_sqrt m
       (ieee_add
          (Math_pow_2 m (ieee_sub (Num (rect_x (snd imgRect))) (Num (rect_x (snd aRect)))))
          (Math_pow_2 m (ieee_sub (Num (rect_y (snd imgRect))) (Num (rect_y (snd aRect))))))"

definition by_distance :: "math_env \<Rightarrow> node \<Rightarrow> node \<Rightarrow> node \<Rightarrow> number" where
  "by_distance m captchaImage a b =
     (let distA = distance m captchaImage a; distB = distance m captchaImage b
      in ieee_sub distA distB)"

text \<open>The second loop: \<open>captchaInput\<close> after it, and the queries made.\<close>

fun find_input ::
  "math_env \<Rightarrow> document \<Rightarrow> node \<Rightarrow> node \<Rightarrow> selector list \<Rightarrow> node option \<times> dom_query list" where
  "find_input m doc captchaImage parent [] = (None, [])"
| "find_input m doc captchaImage parent (s # ss) =
     (case array_sort (by_distance m captchaImage) (querySelectorAll doc parent s) of
        x # xs \<Rightarrow> (Some x, [QuerySelectorAll (fst parent) s])
      | [] \<Rightarrow> (case find_input m doc captchaImage parent ss of
                 (r, t) \<Rightarrow> (r, QuerySelectorAll (fst parent) s # t)))"

text \<open>\<open>captchaImage.closest('form') || document.body\<close>\<close>

definition search_scope :: "document \<Rightarrow> node \<Rightarrow> node option" where
  "search_scope doc captchaImage =
     (case closest doc captchaImage ''form'' of Some f \<Rightarrow> Some f | None \<Rightarrow> body doc)"

text \<open>
  The promise of \<open>findCaptcha\<close> resolves to the pair or to \<open>null\<close> (\<open>None\<close>); it
  rejects when \<open>parent\<close> is \<open>null\<close>, where \<open>parent.querySelectorAll\<close> throws.
\<close>

definition findCaptcha ::
  "math_env \<Rightarrow> document \<Rightarrow> (exn + (node \<times> node) option) \<times> dom_query list" where
  "findCaptcha m doc =
     (case find_image doc captchaImageSelectors of
        (None, t) \<Rightarrow> (Inr None, t)
      | (Some captchaImage, t) \<Rightarrow>
          (case search_scope doc captchaImage of
             None \<Rightarrow>
               (Inl (Exn ''TypeError''
                       (''Cannot read properties of null (reading '' @ [CHR 0x27] @
                        ''querySelectorAll'' @ [CHR 0x27] @ '')'')), t)
           | Some parent \<Rightarrow>
               (case find_input m doc captchaImage parent captchaInputSelectors of
                  (None, u) \<Rightarrow> (Inr None, t @ u)
                | (Some captchaInput, u) \<Rightarrow> (Inr (Some (captchaImage, captchaInput)), t @ u))))"

subsection \<open>getImageDataUrl\<close>

text \<open>
  What the page's platform does is a parameter: whether the canvas gives a 2D context,
  whether drawing the image throws, what \<open>toDataURL\<close> returns or throws, the resolved
  \<open>src\<close> of the image, what \<open>fetch\<close> of a URL settles to, and the data URL a file
  reader produces for a blob (\<open>None\<close> when it fires \<open>error\<close>). The function returns
  the settled value of its promise and the URLs it fetched.
\<close>

record image_env =
  context2d :: bool
  drawImage :: "element \<Rightarrow> exn option"
  toDataURL :: "element \<Rightarrow> exn + string"
  src :: "element \<Rightarrow> string"
  fetch_url :: "string \<Rightarrow> exn + response"
  readAsDataURL :: "blob \<Rightarrow> string option"

definition getImageDataUrl :: "image_env \<Rightarrow> element \<Rightarrow> (exn + string) \<times> string list" where
  "getImageDataUrl env img =
     (if \<not> context2d env then
        (Inl (Exn ''Error'' ''Could not get 2D context from canvas.''), [])
      else
        (case drawImage env img of
           Some e \<Rightarrow> (Inl e, [])
         | None \<Rightarrow>
             (case toDataURL env img of
                Inr dataUrl \<Rightarrow> (Inr dataUrl, [])
              | Inl error \<Rightarrow>
                  ((case fetch_url env (src env img) of
                      Inl e \<Rightarrow> Inl e
                    | Inr response \<Rightarrow>
                        (case blob_body response of
                           Inl e \<Rightarrow> Inl e
                         | Inr blob \<Rightarrow>
                             (case readAsDataURL env blob of
                                None \<Rightarrow> Inl (ProgressEvent ''error'')
                              | Some result \<Rightarrow> Inr result))),
                   [src env img]))))"

subsection \<open>Assigning to the value of the detected input\<close>

text \<open>
  The part of the page the script writes: the \<open>value\<close> of each element, by path, and
  the events dispatched so far, with their targets. (What the page's own listeners do
  when the events reach them is not part of the script and not recorded.)
\<close>

record event =
  event_type :: string
  bubbles :: bool

record dom_state =
  field_value :: "nat list \<Rightarrow> json"
  dispatched :: "(nat list \<times> event) list"

text \<open>
  The state of an HTML input is given by its \<open>type\<close> attribute, compared without
  regard to ASCII case; a missing or unknown type is the text state.
\<close>

definition input_type_keywords :: "string list" where
  "input_type_keywords =
     [''hidden'', ''text'', ''search'', ''tel'', ''url'', ''email'', ''password'', ''date'',
      ''month'', ''week'', ''time'', ''datetime-local'', ''number'', ''range'', ''color'',
      ''checkbox'', ''radio'', ''file'', ''submit'', ''image'', ''reset'', ''button'']"

definition input_type :: "element \<Rightarrow> string" where
  "input_type e =
     (case map_of (attrs e) ''type'' of
        None \<Rightarrow> ''text''
      | Some t \<Rightarrow> if ascii_lower t \<in> set input_type_keywords then ascii_lower t else ''text'')"

definition strip_newlines :: "string \<Rightarrow> string" where
  "strip_newlines s = filter (\<lambda>c. c \<noteq> CHR 0x0A \<and> c \<noteq> CHR 0x0D) s"


text \<open>
  \<open>input.value = solution\<close>. On an element that is not an HTML input the assignment
  creates a plain property holding the value as it is. On an HTML input the value is
  converted to a string first. In the text, search, tel and password states the setter
  stores the string without its line feeds and carriage returns. In the file state it
  throws unless the string is empty. For the remaining states, each with a sanitization
  of its own, the setter is a parameter. The result is what the property holds
  afterwards, or the exception thrown.
\<close>

record content_env =
  math :: math_env
  image_platform :: image_env
  sendMessage :: "json \<Rightarrow> exn + json option"
  num_toString :: "real \<Rightarrow> string"
  other_value_setter :: "element \<Rightarrow> string \<Rightarrow> exn + string"

definition set_value :: "content_env \<Rightarrow> element \<Rightarrow> json \<Rightarrow> exn + json" where
  "set_value env input solution =
     (if namespaceURI input \<noteq> html_ns then Inr solution
      else
        (case to_string (num_toString env) solution of
           Inl e \<Rightarrow> Inl e
         | Inr s \<Rightarrow>
             if input_type input \<in> set [''text'', ''search'', ''tel'', ''password'']
             then Inr (JStr (strip_newlines s))
             else if input_type input = ''file''
             then (if s = [] then Inr (JStr [])
                   else Inl (Exn ''InvalidStateError''
                               ''This input element accepts a filename, which may only be programmatically set to the empty string.''))
             else (case other_value_setter env input s of
                     Inl e \<Rightarrow> Inl e
                   | Inr v \<Rightarrow> Inr (JStr v))))"

text \<open>
  The three statements of the \<open>if\<close> branch. An exception of the assignment leaves the
  \<open>try\<close> block before any event is dispatched.
\<close>

definition fill_input :: "content_env \<Rightarrow> node \<Rightarrow> json \<Rightarrow> dom_state \<Rightarrow> exn + dom_state" where
  "fill_input env input solution st =
     (case set_value env (snd input) solution of
        Inl e \<Rightarrow> Inl e
      | Inr v \<Rightarrow>
          Inr (st\<lparr>field_value := (field_value st)(fst input := v),
                  dispatched := dispatched st @
                    [(fst input, \<lparr>event_type = ''input'', bubbles = True\<rparr>),
                     (fst input, \<lparr>event_type = ''change'', bubbles = True\<rparr>)]\<rparr>))"

subsection \<open>runCaptchaBreaker\<close>

text \<open>
  \<open>await findCaptcha()\<close> stands outside the \<open>try\<close>: its rejection is the rejection
  of \<open>runCaptchaBreaker\<close>, before anything is written. Everything after it is inside the
  \<open>try\<close>, whose \<open>catch\<close> only logs.
\<close>

definition runCaptchaBreaker :: "content_env \<Rightarrow> document \<Rightarrow> dom_state \<Rightarrow> exn + dom_state" where
  "runCaptchaBreaker env doc st =
     (case fst (findCaptcha (math env) doc) of
        Inl e \<Rightarrow> Inl e
      | Inr None \<Rightarrow> Inr st
      | Inr (Some (img, input)) \<Rightarrow>
          (case fst (getImageDataUrl (image_platform env) (snd img)) of
             Inl error \<Rightarrow> Inr st
           | Inr imageDataUrl \<Rightarrow>
               (case sendMessage env
                       (JObj [(''action'', JStr ''solveCaptcha''),
                              (''imageDataUrl'', JStr imageDataUrl)]) of
                  Inl error \<Rightarrow> Inr st
                | Inr None \<Rightarrow> Inr st
                | Inr (Some response) \<Rightarrow>
                    if \<not> truthy response then Inr st
                    else
                      (case get_prop response ''solution'' of
                         Inl error \<Rightarrow> Inr st
                       | Inr None \<Rightarrow> Inr st
                       | Inr (Some solution) \<Rightarrow>
                           if truthy solution
                           then (case fill_input env input solution st of
                                   Inl error \<Rightarrow> Inr st
                                 | Inr st' \<Rightarrow> Inr st')
                           else Inr st))))"

text \<open>
  The value of \<open>response && response.solution\<close> for a reply, \<open>None\<close> standing for
  every falsy outcome that is not a JSON value.
\<close>

definition reply_solution :: "json option \<Rightarrow> json option" where
  "reply_solution reply =
     (case reply of
        None \<Rightarrow> None
      | Some response \<Rightarrow>
          if \<not> truthy response then None
          else (case get_prop response ''solution'' of Inl e \<Rightarrow> None | Inr v \<Rightarrow> v))"


section \<open>The distance of the specification\<close>


section \<open>Concrete pages, endpoints and platforms\<close>

text \<open>
  An engine whose \<open>Math.pow\<close> and \<open>Math.sqrt\<close> round correctly: the exact square and
  the exact square root, rounded to the nearest double.
\<close>

definition reference_math :: math_env where
  "reference_math =
     \<lparr>Math_pow_2 = (\<lambda>x. case x of
                           Num a \<Rightarrow> to_double (a * a)
                         | PosInfinity \<Rightarrow> PosInfinity
                         | NegInfinity \<Rightarrow> PosInfinity
                         | NaN \<Rightarrow> NaN),
      Math_sqrt = (\<lambda>x. case x of
                          Num a \<Rightarrow> if a < 0 then NaN else to_double (sqrt a)
                        | PosInfinity \<Rightarrow> PosInfinity
                        | NegInfinity \<Rightarrow> NaN
                        | NaN \<Rightarrow> NaN)\<rparr>"

text \<open>An HTML element.\<close>

definition html_elem :: "string \<Rightarrow> (string \<times> string) list \<Rightarrow> real \<Rightarrow> real \<Rightarrow> element list \<Rightarrow> element" where
  "html_elem name = Element name html_ns"

text \<open>
  A login page: the captcha image matches the second image selector (its \<open>src\<close>); the
  form holds a six-character text input right beside the image and three inputs named
  after the captcha, the second and third of them at the same distance from the image.
\<close>

definition captcha_img :: element where
  "captcha_img = html_elem ''img'' [(''src'', ''/captcha.png''), (''alt'', ''code'')] 100 100 []"

definition login_form_element :: element where
  "login_form_element =
     html_elem ''form'' [(''action'', ''/login'')] 10 10
       [captcha_img,
        html_elem ''input'' [(''type'', ''text''), (''maxlength'', ''6'')] 101 101 [],
        html_elem ''input'' [(''name'', ''captcha_a'')] 106 108 [],
        html_elem ''input'' [(''name'', ''captcha_b'')] 103 104 [],
        html_elem ''input'' [(''name'', ''captcha_c'')] 104 103 []]"

definition login_page :: document where
  "login_page =
     Document True
       (html_elem ''html'' [] 0 0 [html_elem ''head'' [] 0 0 [], html_elem ''body'' [] 0 0 [login_form_element]])"

definition login_img :: node where
  "login_img = ([1, 0, 0], captcha_img)"

definition login_form :: node where
  "login_form = ([1, 0], login_form_element)"

definition login_inputs :: "node list" where
  "login_inputs =
     [([1, 0, 2], html_elem ''input'' [(''name'', ''captcha_a'')] 106 108 []),
      ([1, 0, 3], html_elem ''input'' [(''name'', ''captcha_b'')] 103 104 []),
      ([1, 0, 4], html_elem ''input'' [(''name'', ''captcha_c'')] 104 103 [])]"














text \<open>
  An SVG document: its document element is not an HTML \<open>html\<close> element, so it has no
  body. It holds an element named \<open>img\<close> whose title mentions the captcha, outside any
  form.
\<close>

definition svg_page :: document where
  "svg_page =
     Document False
       (Element ''svg'' ''http://www.w3.org/2000/svg'' [] 0 0
          [Element ''img'' ''http://www.w3.org/2000/svg'' [(''title'', ''captcha'')] 8 8 []])"

text \<open>A mocked solver endpoint: every request gets the same response.\<close>

definition mock_response :: "nat \<Rightarrow> string \<Rightarrow> exn + json \<Rightarrow> response" where
  "mock_response code reason parsed =
     \<lparr>status = code, statusText = reason, json_body = parsed,
      blob_body = Inr \<lparr>blob_type = ''application/json'', blob_bytes = []\<rparr>\<rparr>"

definition mock_endpoint :: "response \<Rightarrow> solver_env" where
  "mock_endpoint resp = \<lparr>fetch = (\<lambda>req. Inr resp), number_toString = (\<lambda>r. ''0'')\<rparr>"

definition answering :: "json \<Rightarrow> solver_env" where
  "answering payload = mock_endpoint (mock_response 200 ''OK'' (Inr payload))"

definition solved_endpoint :: solver_env where
  "solved_endpoint = answering (JObj [(''data'', JStr ''AB12'')])"

text \<open>
  A mocked page platform: the canvas has a context and drawing succeeds; what
  \<open>toDataURL\<close> and the fetch of the image settle to are the two arguments.
\<close>

definition mock_platform :: "(exn + string) \<Rightarrow> (exn + response) \<Rightarrow> image_env" where
  "mock_platform serialized fetched =
     \<lparr>context2d = True,
      drawImage = (\<lambda>img. None),
      toDataURL = (\<lambda>img. serialized),
      src = (\<lambda>img. case map_of (attrs img) ''src'' of
                     None \<Rightarrow> []
                   | Some u \<Rightarrow> ''https://example.test'' @ u),
      fetch_url = (\<lambda>u. fetched),
      readAsDataURL = (\<lambda>b. Some (''data:'' @ blob_type b @ '';base64,'' @ blob_bytes b))\<rparr>"

definition tainted :: "exn + string" where
  "tainted = Inl (Exn ''SecurityError'' ''Tainted canvases may not be exported.'')"

definition not_found_response :: response where
  "not_found_response =
     \<lparr>status = 404, statusText = ''Not Found'',
      json_body = Inl (Exn ''SyntaxError'' ''Unexpected token''),
      blob_body = Inr \<lparr>blob_type = ''text/html'', blob_bytes = ''PGgxPjQwNDwvaDE+''\<rparr>\<rparr>"

definition blank_state :: dom_state where
  "blank_state = \<lparr>field_value = (\<lambda>p. JStr []), dispatched = []\<rparr>"

definition mock_content :: "(json \<Rightarrow> exn + json option) \<Rightarrow> content_env" where
  "mock_content channel =
     \<lparr>math = reference_math,
      image_platform = mock_platform (Inr ''data:image/png;base64,AAAA'')
                         (Inl (Exn ''TypeError'' ''Failed to fetch'')),
      sendMessage = channel,
      num_toString = (\<lambda>r. ''0''),
      other_value_setter = (\<lambda>e s. Inr s)\<rparr>"

section \<open>Facts about rounding\<close>

lemma to_double_0: "to_double 0 = Num 0"
  by (simp add: to_double_def)

lemma round_even_of_int: "round_even (of_int j) = j"
  by (simp add: round_even_def)




lemma two_powr_int: "(2::real) powr of_int k = 2 powi k"
  by (simp add: powr_real_of_int power_int_def power_one_over inverse_eq_divide)

lemma to_double_within:
  assumes "x \<noteq> 0"
    and "2 powi e \<le> \<bar>x\<bar>" and "\<bar>x\<bar> < 2 powi (e + 1)"
    and "- 1022 \<le> e"
    and "round_even (x / 2 powi (e - 52)) = m"
    and "\<bar>of_int m * 2 powi (e - 52)\<bar> < (2::real) ^ 1024"
  shows "to_double x = Num (of_int m * 2 powi (e - 52))"
proof -
  have "(2::real) powr (of_int e + 1) = 2 powi (e + 1)"
    using two_powr_int [of "e + 1"] by simp
  then have "\<lfloor>log 2 \<bar>x\<bar>\<rfloor> = e"
    using assms(1-3) floor_log_eq_powr_iff [of "\<bar>x\<bar>" 2 e]
    by (simp add: two_powr_int)
  then have "quantum_exp x = e - 52"
    using assms(4) by (simp add: quantum_exp_def)
  with assms(1,5,6) show ?thesis
    by (simp add: to_double_def Let_def abs_less_iff)
qed

lemma to_double_int:
  assumes "\<bar>n\<bar> < 2 ^ 53"
  shows "to_double (of_int n) = Num (of_int n)"
proof (cases "n = 0")
  case True
  then show ?thesis by (simp add: to_double_0)
next
  case False
  let ?x = "of_int n :: real"
  define e where "e = \<lfloor>log 2 \<bar>?x\<bar>\<rfloor>"
  have one: "1 \<le> \<bar>?x\<bar>" using False by (simp flip: of_int_abs)
  have "\<bar>?x\<bar> < 2 ^ 53"
    using assms by (metis of_int_abs of_int_less_iff of_int_numeral of_int_power)
  then have below: "\<bar>?x\<bar> < 2 powr 53" by simp
  have "0 \<le> log 2 \<bar>?x\<bar>" using one by simp
  then have e0: "0 \<le> e" by (simp add: e_def)
  have "log 2 \<bar>?x\<bar> < 53"
    using below one by (subst log_less_iff) simp_all
  then have "e < 53" unfolding e_def by (simp add: floor_less_iff)
  then have e52: "e \<le> 52" by simp
  define k where "k = nat (52 - e)"
  have q: "(2::real) powi (e - 52) = 1 / 2 ^ k"
    using e52 by (cases "e = 52") (simp_all add: power_int_def k_def inverse_eq_divide power_one_over)
  have "(2::real) powr (of_int e + 1) = 2 powi (e + 1)"
    using two_powr_int [of "e + 1"] by simp
  then have bounds: "2 powi e \<le> \<bar>?x\<bar>" "\<bar>?x\<bar> < 2 powi (e + 1)"
    using floor_log_eq_powr_iff [of "\<bar>?x\<bar>" 2 e] one
    by (simp_all add: e_def two_powr_int)
  have "?x / 2 powi (e - 52) = of_int (n * 2 ^ k)" by (simp add: q)
  then have m: "round_even (?x / 2 powi (e - 52)) = n * 2 ^ k"
    by (simp only: round_even_of_int)
  have restored: "of_int (n * 2 ^ k) * 2 powi (e - 52) = ?x" by (simp add: q)
  have "\<bar>?x\<bar> < 2 ^ 1024"
    using \<open>\<bar>?x\<bar> < 2 ^ 53\<close> by (rule less_trans) simp
  then have small: "\<bar>of_int (n * 2 ^ k) * 2 powi (e - 52)\<bar> < (2::real) ^ 1024"
    by (simp only: restored)
  have nz: "?x \<noteq> 0" using False by simp
  have low: "- 1022 \<le> e" using e0 by simp
  from to_double_within [OF nz bounds low m small] show ?thesis
    by (simp only: restored)
qed

lemma to_double_numeral:
  "(numeral w :: int) < 2 ^ 53 \<Longrightarrow> to_double (numeral w) = Num (numeral w)"
  using to_double_int [of "numeral w"] by simp

lemma to_double_neg_numeral:
  "(numeral w :: int) < 2 ^ 53 \<Longrightarrow> to_double (- numeral w) = Num (- numeral w)"
  using to_double_int [of "- numeral w"] by simp

lemmas small_doubles = to_double_numeral to_double_neg_numeral to_double_0







section \<open>Facts about sorting\<close>

lemma sort_insert_not_Nil: "sort_insert cmp x ys \<noteq> []"
  by (cases ys) auto

lemma array_sort_Nil_iff: "array_sort cmp xs = [] \<longleftrightarrow> xs = []"
  by (cases xs) (auto simp: sort_insert_not_Nil)



section \<open>Facts about the two loops\<close>

lemma find_input_first:
  assumes "k < length ss"
    and "\<forall>j<k. querySelectorAll doc parent (ss ! j) = []"
    and "querySelectorAll doc parent (ss ! k) \<noteq> []"
  shows "find_input m doc img parent ss =
           (Some (hd (array_sort (by_distance m img) (querySelectorAll doc parent (ss ! k)))),
            map (QuerySelectorAll (fst parent)) (take (Suc k) ss))"
  using assms
proof (induction ss arbitrary: k)
  case Nil
  then show ?case by simp
next
  case (Cons s ss)
  show ?case
  proof (cases k)
    case 0
    with Cons.prems show ?thesis
      by (auto simp: array_sort_Nil_iff split: list.splits)
  next
    case (Suc k')
    with Cons.prems have no_match: "querySelectorAll doc parent s = []" by auto
    from Suc Cons.prems have "k' < length ss"
      and "\<forall>j<k'. querySelectorAll doc parent (ss ! j) = []"
      and "querySelectorAll doc parent (ss ! k') \<noteq> []"
      by auto
    from Cons.IH [OF this] Suc no_match show ?thesis by simp
  qed
qed

lemma find_input_none:
  "\<forall>s\<in>set ss. querySelectorAll doc parent s = [] \<Longrightarrow>
   find_input m doc img parent ss = (None, map (QuerySelectorAll (fst parent)) ss)"
  by (induction ss) auto



lemma find_image_none:
  "\<forall>s\<in>set ss. querySelector doc s = None \<Longrightarrow>
   find_image doc ss = (None, map QuerySelector ss)"
  by (induction ss) auto

lemma findCaptcha_no_image:
  assumes "\<forall>s\<in>set captchaImageSelectors. querySelector doc s = None"
  shows "findCaptcha m doc = (Inr None, map QuerySelector captchaImageSelectors)"
  using find_image_none [OF assms] by (simp add: findCaptcha_def)

lemma findCaptcha_resolves_with_scope:
  assumes "\<forall>n. fst (find_image doc captchaImageSelectors) = Some n \<longrightarrow> search_scope doc n \<noteq> None"
  shows "\<exists>r. fst (findCaptcha m doc) = Inr r"
  using assms by (auto simp: findCaptcha_def split: option.splits prod.splits)

section \<open>Facts about the solver client, the reply and the assignment\<close>

lemma get_prop_Some_truthy: "get_prop j k = Inr (Some v) \<Longrightarrow> truthy j"
  by (cases j) auto

lemma get_prop_no_field: "\<not> has_field j k \<Longrightarrow> j \<noteq> JNull \<Longrightarrow> get_prop j k = Inr None"
  by (cases j) auto




text \<open>
  What the fallback does: one fetch of the image's \<open>src\<close>; it fails exactly when the
  fetch rejects, or reading the response as a blob rejects, or the file reader reports
  an error, and otherwise resolves to the reader's data URL, whatever the status.
\<close>

lemma getImageDataUrl_fallback:
  assumes "context2d env"
    and "drawImage env img = None"
    and "toDataURL env img = Inl error"
  shows "snd (getImageDataUrl env img) = [src env img] \<and>
         ((\<exists>e. fst (getImageDataUrl env img) = Inl e) \<longleftrightarrow>
            (\<exists>e. fetch_url env (src env img) = Inl e) \<or>
            (\<exists>r e. fetch_url env (src env img) = Inr r \<and> blob_body r = Inl e) \<or>
            (\<exists>r b. fetch_url env (src env img) = Inr r \<and> blob_body r = Inr b \<and>
                   readAsDataURL env b = None)) \<and>
         (\<forall>r b u. fetch_url env (src env img) = Inr r \<longrightarrow> blob_body r = Inr b \<longrightarrow>
                  readAsDataURL env b = Some u \<longrightarrow> fst (getImageDataUrl env img) = Inr u)"
  using assms by (auto simp: getImageDataUrl_def split: sum.splits option.splits)

section \<open>The concrete pages, evaluated\<close>

lemmas dom_eval =
  querySelector_def querySelectorAll_def matches_def closest_def body_def search_scope_def
  html_element_def folds_case_def captchaImageSelectors_def captchaInputSelectors_def
  sublist_code(3) html_elem_def html_ns_def ascii_lower_def

lemmas login_defs =
  login_page_def login_img_def login_form_def login_form_element_def login_inputs_def
  captcha_img_def



lemmas mock_defs =
  mock_endpoint_def mock_response_def answering_def getSolverConfig_def
  DEFAULT_SOLVER_CONFIG_def ok_def

lemma reference_sqrt_square:
  assumes "0 \<le> r" and "to_double r = Num r"
  shows "Math_sqrt reference_math (Num (r * r)) = Num r"
  using assms by (simp add: reference_math_def)

lemma login_page_image:
  "find_image login_page captchaImageSelectors =
     (Some login_img, [QuerySelector (Selector ''img'' [Contains ''title'' ''captcha'']),
                       QuerySelector (Selector ''img'' [Contains ''src'' ''captcha''])])"
  by (simp add: dom_eval login_defs)

lemma login_page_scope: "search_scope login_page login_img = Some login_form"
  by (simp add: dom_eval login_defs)

lemma login_page_inputs:
  "querySelectorAll login_page login_form (captchaInputSelectors ! 0) = []"
  "querySelectorAll login_page login_form (captchaInputSelectors ! 1) = login_inputs"
  by (simp_all add: dom_eval login_defs)

lemma login_distances:
  "distance reference_math login_img (login_inputs ! 0) = Num 10"
  "distance reference_math login_img (login_inputs ! 1) = Num 5"
  "distance reference_math login_img (login_inputs ! 2) = Num 5"
proof -
  have "Math_sqrt reference_math (Num (10 * 10)) = Num 10"
    and "Math_sqrt reference_math (Num (5 * 5)) = Num 5"
    by (rule reference_sqrt_square; simp add: small_doubles)+
  then show "distance reference_math login_img (login_inputs ! 0) = Num 10"
    and "distance reference_math login_img (login_inputs ! 1) = Num 5"
    and "distance reference_math login_img (login_inputs ! 2) = Num 5"
    by (simp_all add: distance_def login_defs html_elem_def reference_math_def small_doubles)
qed

lemma login_page_captcha:
  "fst (findCaptcha reference_math login_page) = Inr (Some (login_img, login_inputs ! 1))"
proof -
  have order: "array_sort (by_distance reference_math login_img) login_inputs =
      [login_inputs ! 1, login_inputs ! 2, login_inputs ! 0]"
    using login_distances
    by (simp add: by_distance_def login_inputs_def small_doubles)
  have "find_input reference_math login_page login_img login_form captchaInputSelectors =
      (Some (hd (array_sort (by_distance reference_math login_img) login_inputs)),
       map (QuerySelectorAll (fst login_form)) (take (Suc 1) captchaInputSelectors))"
    using find_input_first [of 1 captchaInputSelectors login_page login_form reference_math login_img]
      login_page_inputs
    by (simp add: captchaInputSelectors_def login_inputs_def)
  then show ?thesis
    by (simp add: findCaptcha_def login_page_image login_page_scope order)
qed













lemma mock_content_extracted:
  "fst (getImageDataUrl (image_platform (mock_content ch)) (snd login_img)) =
     Inr ''data:image/png;base64,AAAA''"
  by (simp add: getImageDataUrl_def mock_content_def mock_platform_def)

section \<open>The detector's claims\<close>






text \<open>
  C9 fails on the code. In a document without a body, an image found outside any form
  leaves \<open>parent\<close> null and \<open>parent.querySelectorAll\<close> throws: the promise of
  \<open>findCaptcha\<close> rejects with a TypeError, after the one image query that matched.
\<close>

theorem findCaptcha_null_body_rejects:
  "findCaptcha m svg_page =
     (Inl (Exn ''TypeError'' ''Cannot read properties of null (reading 'querySelectorAll')''),
      [QuerySelector (Selector ''img'' [Contains ''title'' ''captcha''])])"
  by (simp add: findCaptcha_def dom_eval svg_page_def)

section \<open>The image extractor's claim\<close>

text \<open>
  C3 fails on the code. With a tainted canvas and a fallback fetch that is answered
  404, the extraction does not fail: the status is never looked at, the body of the
  error response is read as a blob, and the promise resolves with the data URL of an
  HTML error page instead of the data URL of the image.
\<close>

theorem getImageDataUrl_non200_resolves:
  "toDataURL (mock_platform tainted (Inr not_found_response)) captcha_img = tainted \<and>
   \<not> ok not_found_response \<and> status not_found_response = 404 \<and>
   getImageDataUrl (mock_platform tainted (Inr not_found_response)) captcha_img =
     (Inr ''data:text/html;base64,PGgxPjQwNDwvaDE+'', [''https://example.test/captcha.png''])"
  by (simp add: getImageDataUrl_def mock_platform_def tainted_def not_found_response_def
      captcha_img_def html_elem_def ok_def)

section \<open>The solver client's claims\<close>

text \<open>
  C7. When the configured endpoint URL is empty, \<open>solveCaptcha\<close> fails with the
  configuration error and has issued no request at all.
\<close>

theorem solveCaptcha_empty_apiUrl:
  "apiUrl (getSolverConfig stored) = [] \<Longrightarrow>
   solveCaptcha env stored imageDataUrl =
     (Inl (Exn ''Error'' ''Captcha solver API URL is not configured.''), [])"
  by (simp add: solveCaptcha_def)

theorem solveCaptcha_empty_apiUrl_witness:
  "apiUrl (getSolverConfig (Some \<lparr>apiUrl = [], apiKey = ''k''\<rparr>)) = [] \<and>
   solveCaptcha solved_endpoint (Some \<lparr>apiUrl = [], apiKey = ''k''\<rparr>)
       ''data:image/png;base64,AAAA'' =
     (Inl (Exn ''Error'' ''Captcha solver API URL is not configured.''), [])"
  using solveCaptcha_empty_apiUrl
    [of "Some \<lparr>apiUrl = [], apiKey = ''k''\<rparr>" solved_endpoint "''data:image/png;base64,AAAA''"]
  by (simp add: getSolverConfig_def)

text \<open>
  C4, as the code has it. For a success response whose parsed body has a property
  \<open>data\<close>, \<open>solveCaptcha\<close> makes exactly one request; it resolves to the value of the
  property, unchanged, when that value is truthy, and rejects with the "did not return
  a valid solution" error when it is falsy. A body \<open>{data: "AB12"}\<close> with status 200
  gives \<open>"AB12"\<close>.
\<close>

theorem solveCaptcha_data_verbatim:
  assumes "apiUrl (getSolverConfig stored) \<noteq> []"
    and "fetch env (solver_request (getSolverConfig stored) imageDataUrl) = Inr resp"
    and "ok resp"
    and "json_body resp = Inr payload"
    and "get_prop payload ''data'' = Inr (Some v)"
  shows "solveCaptcha env stored imageDataUrl =
           (if truthy v then Inr v
            else Inl (Exn ''Error'' ''Captcha solver API did not return a valid solution.''),
            [solver_request (getSolverConfig stored) imageDataUrl])"
  using assms get_prop_Some_truthy [of payload "''data''" v]
  by (simp add: solveCaptcha_def Let_def)

theorem solveCaptcha_data_verbatim_witness:
  "ok (mock_response 200 ''OK'' (Inr (JObj [(''data'', JStr ''AB12'')]))) \<and>
   solveCaptcha solved_endpoint None ''data:image/png;base64,AAAA'' =
     (Inr (JStr ''AB12''), [solver_request DEFAULT_SOLVER_CONFIG ''data:image/png;base64,AAAA'']) \<and>
   solveCaptcha (answering (JObj [(''data'', JNum 0)])) None ''data:image/png;base64,AAAA'' =
     (Inl (Exn ''Error'' ''Captcha solver API did not return a valid solution.''),
      [solver_request DEFAULT_SOLVER_CONFIG ''data:image/png;base64,AAAA''])"
  using solveCaptcha_data_verbatim
    [of None solved_endpoint "''data:image/png;base64,AAAA''"
        "mock_response 200 ''OK'' (Inr (JObj [(''data'', JStr ''AB12'')]))"
        "JObj [(''data'', JStr ''AB12'')]" "JStr ''AB12''"]
    solveCaptcha_data_verbatim
    [of None "answering (JObj [(''data'', JNum 0)])" "''data:image/png;base64,AAAA''"
        "mock_response 200 ''OK'' (Inr (JObj [(''data'', JNum 0)]))"
        "JObj [(''data'', JNum 0)]" "JNum 0"]
  by (simp add: mock_defs solved_endpoint_def)

text \<open>
  C4, as the claim states it, fails: the body \<open>{data: ""}\<close> with status 200 contains a
  field named \<open>data\<close>, and \<open>solveCaptcha\<close> rejects instead of resolving to \<open>""\<close>.
\<close>

theorem solveCaptcha_empty_data_counterexample:
  "ok (mock_response 200 ''OK'' (Inr (JObj [(''data'', JStr [])]))) \<and>
   has_field (JObj [(''data'', JStr [])]) ''data'' \<and>
   fst (solveCaptcha (answering (JObj [(''data'', JStr [])])) None ''data:image/png;base64,AAAA'') =
     Inl (Exn ''Error'' ''Captcha solver API did not return a valid solution.'')"
  by (simp add: solveCaptcha_def mock_defs Let_def)

text \<open>
  C6. For a success response whose parsed body has no field named \<open>data\<close> (the body
  \<open>{}\<close>, or any value that is not an object), \<open>solveCaptcha\<close> rejects with the
  "did not return a valid solution" error.
\<close>

theorem solveCaptcha_missing_data:
  assumes "apiUrl (getSolverConfig stored) \<noteq> []"
    and "fetch env (solver_request (getSolverConfig stored) imageDataUrl) = Inr resp"
    and "ok resp"
    and "json_body resp = Inr payload"
    and "\<not> has_field payload ''data''"
  shows "fst (solveCaptcha env stored imageDataUrl) =
           Inl (Exn ''Error'' ''Captcha solver API did not return a valid solution.'')"
proof (cases "payload = JNull")
  case True
  with assms show ?thesis by (simp add: solveCaptcha_def Let_def)
next
  case False
  with assms get_prop_no_field [of payload "''data''"] show ?thesis
    by (simp add: solveCaptcha_def Let_def)
qed

theorem solveCaptcha_missing_data_witness:
  "ok (mock_response 200 ''OK'' (Inr (JObj []))) \<and> \<not> has_field (JObj []) ''data'' \<and>
   fst (solveCaptcha (mock_endpoint (mock_response 200 ''OK'' (Inr (JObj []))))
       None ''data:image/png;base64,AAAA'') =
     Inl (Exn ''Error'' ''Captcha solver API did not return a valid solution.'')"
  using solveCaptcha_missing_data
    [of None "mock_endpoint (mock_response 200 ''OK'' (Inr (JObj [])))"
        "''data:image/png;base64,AAAA''" "mock_response 200 ''OK'' (Inr (JObj []))" "JObj []"]
  by (simp add: mock_defs)

text \<open>
  C5. For a response that is not a success, \<open>solveCaptcha\<close> always rejects. When the body
  parses and has a string \<open>message\<close>, the error's message is the fixed prefix followed by
  that string (by "Unknown error" when the string is empty) and so contains it; when
  the body does not parse, the same holds with the response's status text in its place.
\<close>

theorem solveCaptcha_error_message:
  assumes "apiUrl (getSolverConfig stored) \<noteq> []"
    and "fetch env (solver_request (getSolverConfig stored) imageDataUrl) = Inr resp"
    and "\<not> ok resp"
  shows "\<exists>e. fst (solveCaptcha env stored imageDataUrl) = Inl e \<and>
           (\<forall>payload m. json_body resp = Inr payload \<longrightarrow>
              get_prop payload ''message'' = Inr (Some (JStr m)) \<longrightarrow>
              e = Exn ''Error'' (''Captcha solver API error: '' @
                                  (if m = [] then ''Unknown error'' else m)) \<and>
              sublist m (message e)) \<and>
           (\<forall>failure. json_body resp = Inl failure \<longrightarrow>
              e = Exn ''Error'' (''Captcha solver API error: '' @
                                  (if statusText resp = [] then ''Unknown error''
                                   else statusText resp)) \<and>
              sublist (statusText resp) (message e))"
proof (cases "json_body resp")
  case (Inl failure)
  have "sublist (statusText resp) (''Captcha solver API error: '' @ statusText resp)"
    by (rule suffix_imp_sublist) (simp add: suffix_def)
  with assms Inl show ?thesis
    by (simp add: solveCaptcha_def Let_def)
next
  case (Inr payload)
  show ?thesis
  proof (cases "get_prop payload ''message''")
    case (Inl e)
    with assms Inr show ?thesis by (simp add: solveCaptcha_def Let_def)
  next
    case found: (Inr mo)
    have "\<And>m. sublist m (''Captcha solver API error: '' @ m)"
      by (rule suffix_imp_sublist) (simp add: suffix_def)
    with assms Inr found show ?thesis
      by (auto simp add: solveCaptcha_def Let_def split: option.splits sum.splits)
  qed
qed

theorem solveCaptcha_error_message_witness:
  "\<not> ok (mock_response 500 ''Internal Server Error'' (Inr (JObj [(''message'', JStr ''bad image'')]))) \<and>
   fst (solveCaptcha
         (mock_endpoint (mock_response 500 ''Internal Server Error''
                           (Inr (JObj [(''message'', JStr ''bad image'')]))))
         None ''data:image/png;base64,AAAA'') =
     Inl (Exn ''Error'' ''Captcha solver API error: bad image'') \<and>
   sublist ''bad image'' ''Captcha solver API error: bad image'' \<and>
   \<not> ok (mock_response 502 ''Bad Gateway'' (Inl (Exn ''SyntaxError'' ''Unexpected token''))) \<and>
   fst (solveCaptcha
         (mock_endpoint (mock_response 502 ''Bad Gateway'' (Inl (Exn ''SyntaxError'' ''Unexpected token''))))
         None ''data:image/png;base64,AAAA'') =
     Inl (Exn ''Error'' ''Captcha solver API error: Bad Gateway'')"
  using solveCaptcha_error_message
    [of None "mock_endpoint (mock_response 500 ''Internal Server Error''
                           (Inr (JObj [(''message'', JStr ''bad image'')])))"
        "''data:image/png;base64,AAAA''"
        "mock_response 500 ''Internal Server Error'' (Inr (JObj [(''message'', JStr ''bad image'')]))"]
    solveCaptcha_error_message
    [of None "mock_endpoint (mock_response 502 ''Bad Gateway'' (Inl (Exn ''SyntaxError'' ''Unexpected token'')))"
        "''data:image/png;base64,AAAA''"
        "mock_response 502 ''Bad Gateway'' (Inl (Exn ''SyntaxError'' ''Unexpected token''))"]
  by (simp add: mock_defs)

section \<open>The claims about filling the input\<close>




text \<open>
  C10. When the reply to the solve message carries no truthy \<open>solution\<close> (an error
  reply, no reply at all, a solution that is the empty string), \<open>runCaptchaBreaker\<close>
  leaves the page as it was: no value is written and no event is dispatched.
\<close>

theorem runCaptchaBreaker_no_solution:
  assumes "fst (findCaptcha (math env) doc) = Inr (Some (img, input))"
    and "fst (getImageDataUrl (image_platform env) (snd img)) = Inr imageDataUrl"
    and "sendMessage env (JObj [(''action'', JStr ''solveCaptcha''),
                                (''imageDataUrl'', JStr imageDataUrl)]) = Inr reply"
    and "\<not> truthy_opt (reply_solution reply)"
  shows "runCaptchaBreaker env doc st = Inr st"
  using assms
  by (auto simp: runCaptchaBreaker_def reply_solution_def truthy_opt_def
      split: option.splits sum.splits if_splits)

theorem runCaptchaBreaker_no_solution_witness:
  "\<not> truthy_opt (reply_solution (Some (JObj [(''error'', JStr ''Captcha solver API error: bad image'')]))) \<and>
   \<not> truthy_opt (reply_solution None) \<and>
   \<not> truthy_opt (reply_solution (Some (JObj [(''solution'', JStr [])]))) \<and>
   runCaptchaBreaker
     (mock_content (\<lambda>m. Inr (Some (JObj [(''error'', JStr ''Captcha solver API error: bad image'')]))))
     login_page blank_state = Inr blank_state \<and>
   runCaptchaBreaker (mock_content (\<lambda>m. Inr None)) login_page blank_state = Inr blank_state \<and>
   runCaptchaBreaker (mock_content (\<lambda>m. Inr (Some (JObj [(''solution'', JStr [])]))))
     login_page blank_state = Inr blank_state"
proof -
  have found: "\<And>ch. fst (findCaptcha (math (mock_content ch)) login_page) =
      Inr (Some (login_img, login_inputs ! 1))"
    using login_page_captcha by (simp add: mock_content_def)
  have sent: "\<And>r m. sendMessage (mock_content (\<lambda>m. Inr r)) m = Inr r"
    by (simp add: mock_content_def)
  have failed: "\<not> truthy_opt (reply_solution
      (Some (JObj [(''error'', JStr ''Captcha solver API error: bad image'')])))"
    by (simp add: reply_solution_def truthy_opt_def)
  have missing: "\<not> truthy_opt (reply_solution None)"
    by (simp add: reply_solution_def truthy_opt_def)
  have blank: "\<not> truthy_opt (reply_solution (Some (JObj [(''solution'', JStr [])])))"
    by (simp add: reply_solution_def truthy_opt_def)
  from runCaptchaBreaker_no_solution
      [OF found mock_content_extracted sent failed, of blank_state]
    runCaptchaBreaker_no_solution
      [OF found mock_content_extracted sent missing, of blank_state]
    runCaptchaBreaker_no_solution
      [OF found mock_content_extracted sent blank, of blank_state]
    failed missing blank
  show ?thesis by simp
qed

end
